theory Spec2Isabelle
  imports Main "HOL-Library.Multiset" "HOL-Library.Word"
begin

section \<open>JavaScript values used by the backend\<close>

text \<open>
  Strings are lists of code units. An error value is one of the exceptions the program
  can see: a plain \<open>Error\<close> (also \<open>TypeError\<close>), the connection error a rejected
  \<open>poolPromise\<close> carries, the object store's \<open>RestError\<close>, and the relational
  driver's \<open>RequestError\<close>, the only one with a \<open>number\<close> property.
\<close>

type_synonym byte = "8 word"

text \<open>
  The text of a comment is examined code unit by code unit (\<open>trim\<close>), so it is carried
  as its UTF-16 code units.
\<close>

type_synonym utf16 = "16 word list"

datatype js_error =
    JsError string
  | ConnectionError string
  | RestError string
  | RequestError int string

fun err_number :: "js_error \<Rightarrow> int option" where
  "err_number (RequestError n m) = Some n"
| "err_number (JsError m) = None"
| "err_number (ConnectionError m) = None"
| "err_number (RestError m) = None"

fun err_message :: "js_error \<Rightarrow> string" where
  "err_message (RequestError n m) = m"
| "err_message (JsError m) = m"
| "err_message (ConnectionError m) = m"
| "err_message (RestError m) = m"

text \<open>\<open>s.includes(sub)\<close>: \<open>sub\<close> occurs in \<open>s\<close> at some position.\<close>

fun js_includes :: "string \<Rightarrow> string \<Rightarrow> bool" where
  "js_includes [] sub = (sub = [])"
| "js_includes (c # cs) sub = (take (length sub) (c # cs) = sub \<or> js_includes cs sub)"

text \<open>
  \<open>s.split(sep)\<close>: the input is cut at every occurrence of the separator, scanning from
  the left, occurrences not overlapping. \<open>split_from sep cur rest\<close> holds the piece being
  collected in \<open>cur\<close>. With the empty separator JavaScript returns the code units one by one.
\<close>

fun split_from :: "string \<Rightarrow> string \<Rightarrow> string \<Rightarrow> string list" where
  "split_from sep cur [] = [cur]"
| "split_from sep cur (c # cs) =
     (if take (length sep) (c # cs) = sep
      then cur # split_from sep [] (drop (length sep - 1) cs)
      else split_from sep (cur @ [c]) cs)"

definition js_split :: "string \<Rightarrow> string \<Rightarrow> string list" where
  "js_split s sep = (if sep = [] then map (\<lambda>c. [c]) s else split_from sep [] s)"

text \<open>
  \<open>s.trim()\<close> removes white space and line terminators at both ends: tab, line feed,
  vertical tab, form feed, carriage return, space, the no-break space, U+1680, U+2000 to
  U+200A, the line and paragraph separators U+2028 and U+2029, U+202F, U+205F, U+3000 and
  the byte order mark U+FEFF. Each is one code unit.
\<close>

definition js_whitespace :: "16 word \<Rightarrow> bool" where
  "js_whitespace c =
     (c \<in> {0x0009, 0x000A, 0x000B, 0x000C, 0x000D, 0x0020, 0x00A0, 0x1680, 0x2028, 0x2029,
            0x202F, 0x205F, 0x3000, 0xFEFF} \<or>
      (0x2000 \<le> c \<and> c \<le> 0x200A))"

definition js_trim :: "utf16 \<Rightarrow> utf16" where
  "js_trim s = rev (dropWhile js_whitespace (rev (dropWhile js_whitespace s)))"

section \<open>The two stores and the outside world\<close>

text \<open>
  Modelled from the spec: the schema of the relational store, which is not among the
  source files. \<open>Photos(id, title, caption NULL, location NULL, image_url, created_at)\<close>
  and \<open>Comments(id, photo_id REFERENCES Photos(id) ON DELETE CASCADE, comment_text,
  created_at)\<close>; \<open>id\<close> and \<open>created_at\<close> are assigned by the store. The handlers
  rely on both constraints: the comment \<open>Cascade delete will handle comments\<close> stands
  at the \<open>DELETE\<close> statement, and error number 547 of the \<open>INSERT\<close> into \<open>Comments\<close>
  is read as a missing photo. The handler of \<open>DELETE /photos/:id\<close> tests \<open>image_url\<close>
  for a falsy value, so the column is read as nullable here.
\<close>

record photo =
  photo_id :: int
  title :: string
  caption :: "string option"
  location :: "string option"
  image_url :: "string option"
  created_at :: nat

record comment =
  comment_id :: int
  comment_photo_id :: int
  comment_text :: utf16
  comment_created_at :: nat

record blob =
  blob_data :: "byte list"
  blob_content_type :: string

text \<open>
  The statements the handlers hand to the driver, with the values bound to their
  parameters. The route parameter \<open>id\<close> is carried as the number it denotes.
\<close>

datatype stmt =
    SelectPhotos
  | InsertPhoto string "string option" "string option" string
  | SelectImageUrl int
  | DeletePhoto int
  | InsertComment int utf16

text \<open>
  Every call the program makes to the pool, the driver and the storage client is recorded,
  in order. A statement is recorded when the handler hands it to the driver, whether the
  driver then sends it or refuses it.
\<close>

datatype call =
    AwaitPool
  | Query stmt
  | BlobUpload string
  | BlobDeleteIfExists string

datatype console_line =
    ConsoleLog string
  | ConsoleError string
  | ConsoleErrorWith string js_error

record world =
  blobs :: "(string \<times> blob) list"
  photos :: "photo list"
  comments :: "comment list"
  next_photo_id :: int
  next_comment_id :: int
  calls :: "call list"
  console :: "console_line list"

text \<open>
  What the program does not decide: the configuration, whether \<open>containerClient\<close> was
  created when the module was loaded, the token \<open>Date.now()\<close> and \<open>Math.random()\<close> give
  a blob name, the URL the storage SDK reports for a blob name, the store's clock, and
  whether each external call fails and with which error.
\<close>

record env =
  CONTAINER_NAME :: string
  containerClient :: bool
  unique_token :: string
  blob_url :: "string \<Rightarrow> string"
  upload_fails :: "js_error option"
  deleteIfExists_fails :: "js_error option"
  pool_rejects :: "string option"
  store_fails :: "stmt \<Rightarrow> js_error option"
  db_clock :: nat

text \<open>
  A statement fails when the driver refuses a value bound to it or when the store fails
  it. For a parameter declared \<open>sql.Int\<close> the driver refuses a number outside the 32-bit
  range with a \<open>TypeError\<close>; nothing is sent then. Everything else that can go wrong
  with a statement (a lost connection, a time-out, a text longer than its declared
  \<open>sql.NVarChar\<close> length, a constraint) is the store's failure, given by
  \<open>store_fails\<close>.
\<close>

definition sql_Int_refuses :: "int \<Rightarrow> js_error option" where
  "sql_Int_refuses n =
     (if n < - 2147483648 \<or> 2147483647 < n
      then Some (JsError ''Value must be between -2147483648 and 2147483647, inclusive.'')
      else None)"

fun driver_refuses :: "stmt \<Rightarrow> js_error option" where
  "driver_refuses SelectPhotos = None"
| "driver_refuses (InsertPhoto t c l u) = None"
| "driver_refuses (SelectImageUrl i) = sql_Int_refuses i"
| "driver_refuses (DeletePhoto i) = sql_Int_refuses i"
| "driver_refuses (InsertComment i t) = sql_Int_refuses i"

definition query_fails :: "env \<Rightarrow> stmt \<Rightarrow> js_error option" where
  "query_fails env s =
     (case driver_refuses s of
        Some e \<Rightarrow> Some e
      | None \<Rightarrow> store_fails env s)"

text \<open>
  An awaited call runs in a world and leaves a world; it either throws (\<open>Inl\<close>) or
  returns a value (\<open>Inr\<close>). \<open>await m k\<close> continues with \<open>k\<close> when \<open>m\<close> returns and
  passes the exception on when \<open>m\<close> throws. \<open>new_calls w w'\<close> are the calls made between
  the worlds \<open>w\<close> and \<open>w'\<close>.
\<close>

type_synonym 'a async = "world \<Rightarrow> (js_error + 'a) \<times> world"

definition resolve :: "'a \<Rightarrow> 'a async" where
  "resolve x w = (Inr x, w)"

definition await :: "'a async \<Rightarrow> ('a \<Rightarrow> 'b async) \<Rightarrow> 'b async" where
  "await m k w = (case m w of (Inl e, w1) \<Rightarrow> (Inl e, w1) | (Inr x, w1) \<Rightarrow> k x w1)"

definition new_calls :: "world \<Rightarrow> world \<Rightarrow> call list" where
  "new_calls w w' = drop (length (calls w)) (calls w')"

section \<open>blob.js\<close>

text \<open>The container: blob names with their blobs, a name occurring once.\<close>

definition blob_put :: "string \<Rightarrow> blob \<Rightarrow> (string \<times> blob) list \<Rightarrow> (string \<times> blob) list" where
  "blob_put name b bs = (name, b) # filter (\<lambda>kv. fst kv \<noteq> name) bs"

definition blob_remove :: "string \<Rightarrow> (string \<times> blob) list \<Rightarrow> (string \<times> blob) list" where
  "blob_remove name bs = filter (\<lambda>kv. fst kv \<noteq> name) bs"

text \<open>
  \<open>uploadImageToBlob\<close>: the extension is the last piece of the original name split at
  the dots (the whole name when it has no dot); the blob is written under the token and
  the extension, and the URL of the blob is returned.
\<close>

definition uploadImageToBlob :: "env \<Rightarrow> byte list \<Rightarrow> string \<Rightarrow> string \<Rightarrow> string async" where
  "uploadImageToBlob env buffer originalName mimeType w =
     (if \<not> containerClient env
      then (Inl (JsError ''Blob storage client not initialized''), w)
      else
        let extension = last (js_split originalName ''.'');
            blobName = unique_token env @ ''.'' @ extension;
            w1 = w\<lparr>calls := calls w @ [BlobUpload blobName]\<rparr>
        in case upload_fails env of
             Some e \<Rightarrow> (Inl e, w1)
           | None \<Rightarrow>
               (Inr (blob_url env blobName),
                w1\<lparr>blobs := blob_put blobName
                                \<lparr>blob_data = buffer, blob_content_type = mimeType\<rparr> (blobs w1),
                   console := console w1 @ [ConsoleLog ''Blob was uploaded successfully.'']\<rparr>))"

text \<open>The blob name \<open>deleteImageFromBlob\<close> works out from its argument.\<close>

definition blobName_of :: "string \<Rightarrow> string \<Rightarrow> string" where
  "blobName_of container blobNameOrUrl =
     (if js_includes blobNameOrUrl container
      then (let parts = js_split blobNameOrUrl (''/'' @ container @ ''/'')
            in if length parts > 1 then parts ! 1 else blobNameOrUrl)
      else blobNameOrUrl)"

text \<open>The body of the \<open>try\<close> block: \<open>deleteIfExists\<close> removes the blob when it is there.\<close>

definition deleteImageFromBlob_try :: "env \<Rightarrow> string \<Rightarrow> unit async" where
  "deleteImageFromBlob_try env blobNameOrUrl w =
     (let blobName = blobName_of (CONTAINER_NAME env) blobNameOrUrl;
          w1 = w\<lparr>calls := calls w @ [BlobDeleteIfExists blobName]\<rparr>
      in case deleteIfExists_fails env of
           Some e \<Rightarrow> (Inl e, w1)
         | None \<Rightarrow>
             (Inr (),
              w1\<lparr>blobs := blob_remove blobName (blobs w1),
                 console := console w1 @
                   [ConsoleLog (''Blob '' @ blobName @ '' deleted successfully.'')]\<rparr>))"

definition deleteImageFromBlob :: "env \<Rightarrow> string \<Rightarrow> unit async" where
  "deleteImageFromBlob env blobNameOrUrl w =
     (if \<not> containerClient env
      then (Inr (),
            w\<lparr>console := console w @
                [ConsoleError ''Blob storage client not initialized, cannot delete blob.'']\<rparr>)
      else case deleteImageFromBlob_try env blobNameOrUrl w of
             (Inl error, w1) \<Rightarrow>
               (Inr (),
                w1\<lparr>console := console w1 @
                     [ConsoleError (''Error deleting blob: '' @ err_message error)]\<rparr>)
           | (Inr u, w1) \<Rightarrow> (Inr u, w1))"

text \<open>
  The key as the specification words it: locate the segment \<open>/container/\<close> and take the
  remainder of the input; without the segment the whole input is the key.
\<close>

fun remainder_after :: "string \<Rightarrow> string \<Rightarrow> string option" where
  "remainder_after seg [] = (if seg = [] then Some [] else None)"
| "remainder_after seg (c # cs) =
     (if take (length seg) (c # cs) = seg then Some (drop (length seg) (c # cs))
      else remainder_after seg cs)"

definition spec_key :: "string \<Rightarrow> string \<Rightarrow> string" where
  "spec_key container input =
     (case remainder_after (''/'' @ container @ ''/'') input of
        Some r \<Rightarrow> r
      | None \<Rightarrow> input)"

section \<open>db.js and the statements of index.js\<close>

definition poolPromise :: "env \<Rightarrow> unit async" where
  "poolPromise env w =
     (let w1 = w\<lparr>calls := calls w @ [AwaitPool]\<rparr>
      in case pool_rejects env of
           Some m \<Rightarrow> (Inl (ConnectionError m), w1)
         | None \<Rightarrow> (Inr (), w1))"

definition run_query :: "env \<Rightarrow> stmt \<Rightarrow> 'a async \<Rightarrow> 'a async" where
  "run_query env s exec w =
     (let w1 = w\<lparr>calls := calls w @ [Query s]\<rparr>
      in case query_fails env s of
           Some e \<Rightarrow> (Inl e, w1)
         | None \<Rightarrow> exec w1)"

text \<open>
  \<open>SELECT * FROM Photos ORDER BY created_at DESC\<close>: the rows of the table, sorted by
  \<open>created_at\<close>, the latest first. SQL leaves the order of rows with equal timestamps
  open; the sort below fixes one.
\<close>

definition select_photos :: "env \<Rightarrow> photo list async" where
  "select_photos env =
     run_query env SelectPhotos (\<lambda>w. (Inr (rev (sort_key created_at (photos w))), w))"

text \<open>\<open>INSERT INTO Photos (title, caption, location, image_url) OUTPUT INSERTED.* VALUES (...)\<close>\<close>

definition insert_photo ::
  "env \<Rightarrow> string \<Rightarrow> string option \<Rightarrow> string option \<Rightarrow> string \<Rightarrow> photo async" where
  "insert_photo env t c l u =
     run_query env (InsertPhoto t c l u) (\<lambda>w.
       let row = \<lparr>photo_id = next_photo_id w, title = t, caption = c, location = l,
                  image_url = Some u, created_at = db_clock env\<rparr>
       in (Inr row, w\<lparr>photos := photos w @ [row], next_photo_id := next_photo_id w + 1\<rparr>))"

text \<open>\<open>SELECT image_url FROM Photos WHERE id = @id\<close>\<close>

definition select_image_url :: "env \<Rightarrow> int \<Rightarrow> string option list async" where
  "select_image_url env i =
     run_query env (SelectImageUrl i) (\<lambda>w.
       (Inr (map image_url (filter (\<lambda>p. photo_id p = i) (photos w))), w))"

text \<open>\<open>DELETE FROM Photos WHERE id = @id\<close>, the comments of the photo going with it.\<close>

definition delete_photo :: "env \<Rightarrow> int \<Rightarrow> unit async" where
  "delete_photo env i =
     run_query env (DeletePhoto i) (\<lambda>w.
       (Inr (), w\<lparr>photos := filter (\<lambda>p. photo_id p \<noteq> i) (photos w),
                  comments := filter (\<lambda>c. comment_photo_id c \<noteq> i) (comments w)\<rparr>))"

text \<open>
  \<open>INSERT INTO Comments (photo_id, comment_text) OUTPUT INSERTED.* VALUES (...)\<close>; the
  store answers a \<open>photo_id\<close> without its photo with error number 547.
\<close>

definition insert_comment :: "env \<Rightarrow> int \<Rightarrow> utf16 \<Rightarrow> comment async" where
  "insert_comment env i t =
     run_query env (InsertComment i t) (\<lambda>w.
       if \<exists>p \<in> set (photos w). photo_id p = i
       then
         let row = \<lparr>comment_id = next_comment_id w, comment_photo_id = i, comment_text = t,
                    comment_created_at = db_clock env\<rparr>
         in (Inr row, w\<lparr>comments := comments w @ [row],
                        next_comment_id := next_comment_id w + 1\<rparr>)
       else (Inl (RequestError 547
               ''The INSERT statement conflicted with the FOREIGN KEY constraint.''), w))"

section \<open>index.js: the route handlers\<close>

text \<open>
  What \<open>multer\<close> hands to the handler of \<open>POST /photos\<close>: \<open>req.file\<close>, undefined
  (\<open>None\<close>) when the form has no \<open>image\<close> part, and the text fields of \<open>req.body\<close>,
  each undefined when the form does not carry it.
\<close>

record upload_file =
  buffer :: "byte list"
  originalname :: string
  mimetype :: string

record photo_request =
  req_file :: "upload_file option"
  req_title :: "string option"
  req_caption :: "string option"
  req_location :: "string option"

datatype body =
    ErrorJson string
  | MessageJson string
  | PhotoJson photo
  | PhotosJson "photo list"
  | CommentJson comment

type_synonym response = "nat \<times> body"

text \<open>\<open>v || null\<close> on a text field: \<open>undefined\<close> and the empty string are falsy.\<close>

definition or_null :: "string option \<Rightarrow> string option" where
  "or_null v = (case v of None \<Rightarrow> None | Some s \<Rightarrow> if s = [] then None else Some s)"

definition log_error :: "string \<Rightarrow> js_error \<Rightarrow> world \<Rightarrow> world" where
  "log_error m e w = w\<lparr>console := console w @ [ConsoleErrorWith m e]\<rparr>"

text \<open>\<open>GET /photos\<close>\<close>

definition get_photos :: "env \<Rightarrow> world \<Rightarrow> response \<times> world" where
  "get_photos env w =
     (case await (poolPromise env) (\<lambda>pool. select_photos env) w of
        (Inr recordset, w1) \<Rightarrow> ((200, PhotosJson recordset), w1)
      | (Inl err, w1) \<Rightarrow>
          ((500, ErrorJson ''Internal Server Error''),
           log_error ''Error fetching photos:'' err w1))"

text \<open>\<open>POST /photos\<close>: the body of the \<open>try\<close> block, then the handler with its \<open>catch\<close>.\<close>

definition post_photos_try :: "env \<Rightarrow> photo_request \<Rightarrow> response async" where
  "post_photos_try env req =
     (case req_file req of
        None \<Rightarrow> resolve (400, ErrorJson ''No image file provided'')
      | Some file \<Rightarrow>
          (case req_title req of
             None \<Rightarrow> resolve (400, ErrorJson ''Title is required'')
           | Some t \<Rightarrow>
               if t = [] then resolve (400, ErrorJson ''Title is required'')
               else
                 await (uploadImageToBlob env (buffer file) (originalname file) (mimetype file))
                   (\<lambda>imageUrl.
                 await (poolPromise env) (\<lambda>pool.
                 await (insert_photo env t (or_null (req_caption req))
                          (or_null (req_location req)) imageUrl) (\<lambda>row.
                 resolve (201, PhotoJson row))))))"

definition post_photos :: "env \<Rightarrow> photo_request \<Rightarrow> world \<Rightarrow> response \<times> world" where
  "post_photos env req w =
     (case post_photos_try env req w of
        (Inr res, w1) \<Rightarrow> (res, w1)
      | (Inl err, w1) \<Rightarrow>
          ((500, ErrorJson ''Failed to process request''),
           log_error ''Error uploading photo:'' err w1))"

text \<open>\<open>DELETE /photos/:id\<close>\<close>

text \<open>\<open>if (imageUrl) { await deleteImageFromBlob(imageUrl); }\<close>\<close>

definition delete_blob_if_present :: "env \<Rightarrow> string option \<Rightarrow> unit async" where
  "delete_blob_if_present env imageUrl =
     (case imageUrl of
        None \<Rightarrow> resolve ()
      | Some u \<Rightarrow> if u = [] then resolve () else deleteImageFromBlob env u)"

definition delete_photos_try :: "env \<Rightarrow> int \<Rightarrow> response async" where
  "delete_photos_try env photoId =
     await (poolPromise env) (\<lambda>pool.
     await (select_image_url env photoId) (\<lambda>recordset.
       case recordset of
         [] \<Rightarrow> resolve (404, ErrorJson ''Photo not found'')
       | imageUrl # others \<Rightarrow>
           await (delete_blob_if_present env imageUrl) (\<lambda>done.
           await (delete_photo env photoId) (\<lambda>deleted.
           resolve (200, MessageJson ''Photo deleted successfully'')))))"

definition delete_photos :: "env \<Rightarrow> int \<Rightarrow> world \<Rightarrow> response \<times> world" where
  "delete_photos env photoId w =
     (case delete_photos_try env photoId w of
        (Inr res, w1) \<Rightarrow> (res, w1)
      | (Inl err, w1) \<Rightarrow>
          ((500, ErrorJson ''Failed to delete photo''),
           log_error ''Error deleting photo:'' err w1))"

text \<open>
  \<open>POST /photos/:id/comments\<close>, from the test of the text on; the text is checked before
  the \<open>try\<close> block. The argument \<open>text\<close> is what the destructuring of \<open>req.body\<close>
  gave for \<open>comment_text\<close>: a text, or \<open>None\<close> for \<open>undefined\<close>.
\<close>

definition post_comments :: "env \<Rightarrow> int \<Rightarrow> utf16 option \<Rightarrow> world \<Rightarrow> response \<times> world" where
  "post_comments env photoId text w =
     (case text of
        None \<Rightarrow> ((400, ErrorJson ''Comment text cannot be empty''), w)
      | Some t \<Rightarrow>
          if t = [] \<or> js_trim t = []
          then ((400, ErrorJson ''Comment text cannot be empty''), w)
          else
            (case await (poolPromise env) (\<lambda>pool. insert_comment env photoId t) w of
               (Inr row, w1) \<Rightarrow> ((201, CommentJson row), w1)
             | (Inl err, w1) \<Rightarrow>
                 (if err_number err = Some 547
                  then (404, ErrorJson ''Photo not found'')
                  else (500, ErrorJson ''Failed to add comment''),
                  log_error ''Error adding comment:'' err w1)))"






section \<open>A small gallery to run the handlers on\<close>

definition sunset :: photo where
  "sunset = \<lparr>photo_id = 7, title = ''Sunset'', caption = Some ''Over the bay'', location = None,
     image_url = Some ''https://media.blob.core.windows.net/photos/1700000000001-aq3.jpg'',
     created_at = 10\<rparr>"

definition harbour :: photo where
  "harbour = \<lparr>photo_id = 8, title = ''Harbour'', caption = None, location = Some ''Karachi'',
     image_url = Some ''https://media.blob.core.windows.net/photos/1700000000003-zk1.png'',
     created_at = 30\<rparr>"

definition market :: photo where
  "market = \<lparr>photo_id = 9, title = ''Market'', caption = None, location = None,
     image_url = None, created_at = 20\<rparr>"

text \<open>The text \<open>Nice!\<close>\<close>

definition nice :: utf16 where
  "nice = [0x4E, 0x69, 0x63, 0x65, 0x21]"

definition gallery :: world where
  "gallery = \<lparr>blobs =
       [(''1700000000001-aq3.jpg'', \<lparr>blob_data = [255, 216, 255], blob_content_type = ''image/jpeg''\<rparr>),
        (''1700000000003-zk1.png'', \<lparr>blob_data = [137, 80], blob_content_type = ''image/png''\<rparr>)],
     photos = [sunset, harbour, market],
     comments = [\<lparr>comment_id = 1, comment_photo_id = 7, comment_text = nice,
                  comment_created_at = 12\<rparr>],
     next_photo_id = 10, next_comment_id = 2, calls = [], console = []\<rparr>"

definition healthy :: env where
  "healthy = \<lparr>CONTAINER_NAME = ''photos'', containerClient = True,
     unique_token = ''1700000000005-k3f9a'',
     blob_url = (\<lambda>n. ''https://media.blob.core.windows.net/photos/'' @ n),
     upload_fails = None, deleteIfExists_fails = None, pool_rejects = None,
     store_fails = (\<lambda>s. None), db_clock = 40\<rparr>"

definition dusk_upload :: photo_request where
  "dusk_upload = \<lparr>req_file = Some \<lparr>buffer = [255, 216, 255, 224], originalname = ''dusk.jpg'',
                                   mimetype = ''image/jpeg''\<rparr>,
     req_title = Some ''Dusk'', req_caption = Some [], req_location = Some ''Lahore''\<rparr>"

definition empty_upload :: photo_request where
  "empty_upload = \<lparr>req_file = Some \<lparr>buffer = [], originalname = ''dusk.jpg'',
                                    mimetype = ''image/jpeg''\<rparr>,
     req_title = Some ''Dusk'', req_caption = None, req_location = None\<rparr>"

lemmas gallery_defs = sunset_def harbour_def market_def gallery_def healthy_def
  dusk_upload_def empty_upload_def nice_def

lemmas query_fails_defs = query_fails_def sql_Int_refuses_def

section \<open>Facts about the string functions and the statements\<close>

lemma js_trim_empty_iff: "js_trim s = [] \<longleftrightarrow> (\<forall>c\<in>set s. js_whitespace c)"
proof
  assume "js_trim s = []"
  then have "\<forall>c\<in>set (dropWhile js_whitespace s). js_whitespace c"
    by (simp add: js_trim_def dropWhile_eq_Nil_conv)
  then have "dropWhile js_whitespace s = []"
    using hd_dropWhile[of js_whitespace s] by (cases "dropWhile js_whitespace s") auto
  then show "\<forall>c\<in>set s. js_whitespace c"
    by (simp add: dropWhile_eq_Nil_conv)
next
  assume "\<forall>c\<in>set s. js_whitespace c"
  then have d: "dropWhile js_whitespace s = []"
    by (simp add: dropWhile_eq_Nil_conv)
  show "js_trim s = []"
    unfolding js_trim_def d by simp
qed

lemma where_id_some:
  "\<exists>p\<in>set ps. photo_id p = i \<Longrightarrow>
   \<exists>p rest. filter (\<lambda>p. photo_id p = i) ps = p # rest \<and> find (\<lambda>p. photo_id p = i) ps = Some p"
  by (induction ps) auto

lemma where_id_none:
  "\<forall>p\<in>set ps. photo_id p \<noteq> i \<Longrightarrow> filter (\<lambda>p. photo_id p = i) ps = []"
  by (induction ps) auto

lemma order_by_desc_sorted:
  "sorted_wrt (\<lambda>a b. created_at b \<le> created_at a) (rev (sort_key created_at ps))"
  using sorted_sort_key[of created_at ps]
  by (simp add: sorted_wrt_rev sorted_map)

lemma order_by_desc_strict:
  assumes "distinct (map created_at ps)"
  shows "sorted_wrt (\<lambda>a b. created_at b < created_at a) (rev (sort_key created_at ps))"
proof -
  have "mset (map created_at (sort_key created_at ps)) = mset (map created_at ps)"
    by simp
  then have "distinct (map created_at (sort_key created_at ps))"
    using assms mset_eq_imp_distinct_iff by blast
  with sorted_sort_key[of created_at ps]
  have "sorted_wrt (<) (map created_at (sort_key created_at ps))"
    by (simp add: strict_sorted_iff)
  then show ?thesis
    by (simp add: sorted_wrt_rev sorted_wrt_map)
qed

section \<open>Facts about the handlers\<close>

lemmas post_photos_defs = post_photos_def post_photos_try_def await_def resolve_def
  uploadImageToBlob_def poolPromise_def insert_photo_def run_query_def new_calls_def
  log_error_def Let_def

lemmas delete_photos_defs = delete_photos_def delete_photos_try_def await_def resolve_def
  poolPromise_def select_image_url_def delete_photo_def run_query_def Let_def

lemmas post_comments_defs = post_comments_def await_def poolPromise_def insert_comment_def
  run_query_def log_error_def Let_def new_calls_def

lemmas deleteImageFromBlob_defs = deleteImageFromBlob_def deleteImageFromBlob_try_def
  blob_remove_def Let_def

lemma query_fails_blob_settings:
  "query_fails (env\<lparr>containerClient := b, deleteIfExists_fails := f\<rparr>) s = query_fails env s"
  by (cases "driver_refuses s") (simp_all add: query_fails_def)

lemma post_photos_calls_shape:
  "new_calls w (snd (post_photos env req w)) = [] \<or>
   (\<exists>n rest. new_calls w (snd (post_photos env req w)) = BlobUpload n # rest)"
  by (simp add: post_photos_defs split: option.splits)

lemma get_photos_ok:
  assumes "pool_rejects env = None" and "query_fails env SelectPhotos = None"
  shows "get_photos env w =
     ((200, PhotosJson (rev (sort_key created_at (photos w)))),
      w\<lparr>calls := calls w @ [AwaitPool, Query SelectPhotos]\<rparr>)"
  using assms
  by (simp add: get_photos_def await_def poolPromise_def select_photos_def run_query_def Let_def)

lemma delete_blob_if_present_result:
  "\<exists>w'. delete_blob_if_present env imageUrl w = (Inr (), w') \<and>
        photos w' = photos w \<and> comments w' = comments w \<and>
        calls w' = calls w @
          (case imageUrl of
             None \<Rightarrow> []
           | Some u \<Rightarrow> if u \<noteq> [] \<and> containerClient env
                       then [BlobDeleteIfExists (blobName_of (CONTAINER_NAME env) u)] else [])"
  by (simp add: delete_blob_if_present_def resolve_def deleteImageFromBlob_def
      deleteImageFromBlob_try_def Let_def split: option.splits)

lemma delete_photos_missing:
  assumes "filter (\<lambda>p. photo_id p = i) (photos w) = []"
  shows "delete_photos env i w =
     (case pool_rejects env of
        Some m \<Rightarrow> ((500, ErrorJson ''Failed to delete photo''),
                   log_error ''Error deleting photo:'' (ConnectionError m)
                     (w\<lparr>calls := calls w @ [AwaitPool]\<rparr>))
      | None \<Rightarrow>
         (case query_fails env (SelectImageUrl i) of
            Some e \<Rightarrow> ((500, ErrorJson ''Failed to delete photo''),
                   log_error ''Error deleting photo:'' e
                     (w\<lparr>calls := calls w @ [AwaitPool, Query (SelectImageUrl i)]\<rparr>))
          | None \<Rightarrow> ((404, ErrorJson ''Photo not found''),
                      w\<lparr>calls := calls w @ [AwaitPool, Query (SelectImageUrl i)]\<rparr>)))"
  using assms
  by (simp add: delete_photos_defs split: option.splits)

lemma delete_photos_existing:
  assumes "filter (\<lambda>p. photo_id p = i) (photos w) = p # rest"
    and "pool_rejects env = None" and "query_fails env (SelectImageUrl i) = None"
    and "delete_blob_if_present env (image_url p)
           (w\<lparr>calls := calls w @ [AwaitPool, Query (SelectImageUrl i)]\<rparr>) = (Inr (), w2)"
  shows "delete_photos env i w =
     (case query_fails env (DeletePhoto i) of
        Some e \<Rightarrow> ((500, ErrorJson ''Failed to delete photo''),
                   log_error ''Error deleting photo:'' e
                     (w2\<lparr>calls := calls w2 @ [Query (DeletePhoto i)]\<rparr>))
      | None \<Rightarrow> ((200, MessageJson ''Photo deleted successfully''),
                  w2\<lparr>calls := calls w2 @ [Query (DeletePhoto i)],
                     photos := filter (\<lambda>p. photo_id p \<noteq> i) (photos w2),
                     comments := filter (\<lambda>c. comment_photo_id c \<noteq> i) (comments w2)\<rparr>))"
  using assms
  by (simp add: delete_photos_defs split: option.splits)

section \<open>Create-photo\<close>

text \<open>
  C1. In every run of the \<open>POST /photos\<close> handler the upload to the object store comes
  before any statement sent to the relational store: whatever precedes a query among the
  calls of the run contains the upload. When \<open>uploadImageToBlob\<close> throws, on a request
  that passed validation, the handler answers 500 \<open>Failed to process request\<close>, the
  tables are as before, the pool is not awaited and no statement is sent.
\<close>

theorem post_photos_upload_first:
  "(\<forall>pre s post. new_calls w (snd (post_photos env req w)) = pre @ Query s # post \<longrightarrow>
       (\<exists>n. BlobUpload n \<in> set pre)) \<and>
   (\<forall>f t e. req_file req = Some f \<and> req_title req = Some t \<and> t \<noteq> [] \<and>
        fst (uploadImageToBlob env (buffer f) (originalname f) (mimetype f) w) = Inl e \<longrightarrow>
      fst (post_photos env req w) = (500, ErrorJson ''Failed to process request'') \<and>
      photos (snd (post_photos env req w)) = photos w \<and>
      comments (snd (post_photos env req w)) = comments w \<and>
      AwaitPool \<notin> set (new_calls w (snd (post_photos env req w))) \<and>
      (\<forall>s. Query s \<notin> set (new_calls w (snd (post_photos env req w)))))"
proof (intro conjI allI impI)
  fix pre s post
  assume eq: "new_calls w (snd (post_photos env req w)) = pre @ Query s # post"
  with post_photos_calls_shape[of w env req]
  obtain n rest where "pre @ Query s # post = BlobUpload n # rest"
    by auto
  then have "pre \<noteq> [] \<and> hd pre = BlobUpload n"
    by (cases pre) auto
  then have "BlobUpload n \<in> set pre"
    using hd_in_set by metis
  then show "\<exists>n. BlobUpload n \<in> set pre" ..
next
  fix f t e
  assume h: "req_file req = Some f \<and> req_title req = Some t \<and> t \<noteq> [] \<and>
    fst (uploadImageToBlob env (buffer f) (originalname f) (mimetype f) w) = Inl e"
  then obtain w1 where up: "uploadImageToBlob env (buffer f) (originalname f) (mimetype f) w = (Inl e, w1)"
    by (metis prod.collapse)
  have tr: "post_photos env req w =
      ((500, ErrorJson ''Failed to process request''), log_error ''Error uploading photo:'' e w1)"
    using h by (simp add: post_photos_def post_photos_try_def await_def up)
  have "photos (snd (uploadImageToBlob env (buffer f) (originalname f) (mimetype f) w)) = photos w"
    and "comments (snd (uploadImageToBlob env (buffer f) (originalname f) (mimetype f) w)) = comments w"
    and "set (new_calls w (snd (uploadImageToBlob env (buffer f) (originalname f) (mimetype f) w)))
      \<subseteq> range BlobUpload"
    by (simp_all add: uploadImageToBlob_def new_calls_def Let_def split: option.splits)
  then have eff: "photos w1 = photos w" "comments w1 = comments w"
    and cl: "set (new_calls w w1) \<subseteq> range BlobUpload"
    by (simp_all add: up)
  show "fst (post_photos env req w) = (500, ErrorJson ''Failed to process request'')"
    by (simp add: tr)
  show "photos (snd (post_photos env req w)) = photos w"
    by (simp add: tr log_error_def eff)
  show "comments (snd (post_photos env req w)) = comments w"
    by (simp add: tr log_error_def eff)
  show "AwaitPool \<notin> set (new_calls w (snd (post_photos env req w)))"
    using cl by (auto simp: tr log_error_def new_calls_def)
  fix s
  show "Query s \<notin> set (new_calls w (snd (post_photos env req w)))"
    using cl by (auto simp: tr log_error_def new_calls_def)
qed

text \<open>The run that stores \<open>dusk.jpg\<close>, and the same request with the upload timing out.\<close>

theorem post_photos_upload_first_witness:
  "new_calls gallery (snd (post_photos healthy dusk_upload gallery)) =
     [BlobUpload ''1700000000005-k3f9a.jpg'', AwaitPool] @
     Query (InsertPhoto ''Dusk'' None (Some ''Lahore'')
        ''https://media.blob.core.windows.net/photos/1700000000005-k3f9a.jpg'') # [] \<and>
   (\<exists>n. BlobUpload n \<in> set [BlobUpload ''1700000000005-k3f9a.jpg'', AwaitPool]) \<and>
   fst (uploadImageToBlob (healthy\<lparr>upload_fails := Some (RestError ''timeout'')\<rparr>)
          [255, 216, 255, 224] ''dusk.jpg'' ''image/jpeg'' gallery) = Inl (RestError ''timeout'') \<and>
   fst (post_photos (healthy\<lparr>upload_fails := Some (RestError ''timeout'')\<rparr>) dusk_upload gallery)
     = (500, ErrorJson ''Failed to process request'') \<and>
   photos (snd (post_photos (healthy\<lparr>upload_fails := Some (RestError ''timeout'')\<rparr>)
      dusk_upload gallery)) = [sunset, harbour, market]"
proof -
  have run: "new_calls gallery (snd (post_photos healthy dusk_upload gallery)) =
     [BlobUpload ''1700000000005-k3f9a.jpg'', AwaitPool] @
     Query (InsertPhoto ''Dusk'' None (Some ''Lahore'')
        ''https://media.blob.core.windows.net/photos/1700000000005-k3f9a.jpg'') # []"
    by (simp add: post_photos_defs or_null_def js_split_def query_fails_defs gallery_defs)
  have up: "fst (uploadImageToBlob (healthy\<lparr>upload_fails := Some (RestError ''timeout'')\<rparr>)
          [255, 216, 255, 224] ''dusk.jpg'' ''image/jpeg'' gallery) = Inl (RestError ''timeout'')"
    by (simp add: uploadImageToBlob_def Let_def gallery_defs)
  have req: "req_file dusk_upload = Some \<lparr>buffer = [255, 216, 255, 224], originalname = ''dusk.jpg'',
       mimetype = ''image/jpeg''\<rparr> \<and> req_title dusk_upload = Some ''Dusk''"
    by (simp add: dusk_upload_def)
  from post_photos_upload_first[of gallery healthy dusk_upload] run
  have a: "\<exists>n. BlobUpload n \<in> set [BlobUpload ''1700000000005-k3f9a.jpg'', AwaitPool]"
    by blast
  from post_photos_upload_first[of gallery "healthy\<lparr>upload_fails := Some (RestError ''timeout'')\<rparr>"
      dusk_upload] req up
  have b: "fst (post_photos (healthy\<lparr>upload_fails := Some (RestError ''timeout'')\<rparr>) dusk_upload gallery)
     = (500, ErrorJson ''Failed to process request'') \<and>
   photos (snd (post_photos (healthy\<lparr>upload_fails := Some (RestError ''timeout'')\<rparr>)
      dusk_upload gallery)) = photos gallery"
    by simp
  show ?thesis
    using run up a b by (simp add: gallery_def)
qed

text \<open>
  C5 as stated fails: \<open>empty_upload\<close> carries a file of zero bytes and a title; the handler
  uploads the empty blob, inserts the row and answers 201.
\<close>

theorem post_photos_empty_file_counterexample:
  "req_file empty_upload =
     Some \<lparr>buffer = [], originalname = ''dusk.jpg'', mimetype = ''image/jpeg''\<rparr> \<and>
   fst (post_photos healthy empty_upload gallery) =
     (201, PhotoJson \<lparr>photo_id = 10, title = ''Dusk'', caption = None, location = None,
        image_url = Some ''https://media.blob.core.windows.net/photos/1700000000005-k3f9a.jpg'',
        created_at = 40\<rparr>) \<and>
   new_calls gallery (snd (post_photos healthy empty_upload gallery)) =
     [BlobUpload ''1700000000005-k3f9a.jpg'', AwaitPool,
      Query (InsertPhoto ''Dusk'' None None
        ''https://media.blob.core.windows.net/photos/1700000000005-k3f9a.jpg'')]"
  by (simp add: post_photos_defs or_null_def js_split_def query_fails_defs gallery_defs)

text \<open>
  C5, amended. The handler answers 400 exactly when the file is missing or the title is
  missing or empty, and then nothing has been called and nothing has changed; the length
  of the file's bytes is not looked at.
\<close>

theorem post_photos_rejects_missing_input:
  "(fst (fst (post_photos env req w)) = 400 \<longleftrightarrow>
      req_file req = None \<or> req_title req = None \<or> req_title req = Some []) \<and>
   (req_file req = None \<longrightarrow>
      post_photos env req w = ((400, ErrorJson ''No image file provided''), w)) \<and>
   (req_file req \<noteq> None \<and> (req_title req = None \<or> req_title req = Some []) \<longrightarrow>
      post_photos env req w = ((400, ErrorJson ''Title is required''), w))"
  by (auto simp add: post_photos_defs split: option.splits)

theorem post_photos_rejects_missing_input_witness:
  "post_photos healthy (dusk_upload\<lparr>req_file := None\<rparr>) gallery =
     ((400, ErrorJson ''No image file provided''), gallery) \<and>
   post_photos healthy (dusk_upload\<lparr>req_title := Some []\<rparr>) gallery =
     ((400, ErrorJson ''Title is required''), gallery) \<and>
   fst (fst (post_photos healthy empty_upload gallery)) \<noteq> 400"
proof -
  have a: "req_file (dusk_upload\<lparr>req_file := None\<rparr>) = None"
    by simp
  have b: "req_file (dusk_upload\<lparr>req_title := Some []\<rparr>) \<noteq> None \<and>
      req_title (dusk_upload\<lparr>req_title := Some []\<rparr>) = Some []"
    by (simp add: dusk_upload_def)
  have c: "\<not> (req_file empty_upload = None \<or> req_title empty_upload = None \<or>
      req_title empty_upload = Some [])"
    by (simp add: empty_upload_def)
  show ?thesis
    using post_photos_rejects_missing_input[of healthy "dusk_upload\<lparr>req_file := None\<rparr>" gallery]
      post_photos_rejects_missing_input[of healthy "dusk_upload\<lparr>req_title := Some []\<rparr>" gallery]
      post_photos_rejects_missing_input[of healthy empty_upload gallery]
      a b c
    by blast
qed

text \<open>
  C10. When the \<open>POST /photos\<close> handler answers 201, the row it returns is the row added to
  \<open>Photos\<close>; its \<open>caption\<close> is NULL when the request's caption is missing or empty and is
  the request's caption otherwise, and the same holds for \<open>location\<close>.
\<close>

theorem post_photos_optional_fields:
  "post_photos env req w = ((201, b), w') \<Longrightarrow>
   \<exists>row. b = PhotoJson row \<and> photos w' = photos w @ [row] \<and>
     (req_caption req = None \<or> req_caption req = Some [] \<longrightarrow> caption row = None) \<and>
     (\<forall>c. req_caption req = Some c \<and> c \<noteq> [] \<longrightarrow> caption row = Some c) \<and>
     (req_location req = None \<or> req_location req = Some [] \<longrightarrow> location row = None) \<and>
     (\<forall>l. req_location req = Some l \<and> l \<noteq> [] \<longrightarrow> location row = Some l)"
  by (auto simp add: post_photos_defs or_null_def split: option.splits if_splits)

text \<open>The request \<open>dusk_upload\<close> has the empty caption and the location \<open>Lahore\<close>.\<close>

theorem post_photos_optional_fields_witness:
  "fst (fst (post_photos healthy dusk_upload gallery)) = 201 \<and>
   (\<exists>row. snd (fst (post_photos healthy dusk_upload gallery)) = PhotoJson row \<and>
      photos (snd (post_photos healthy dusk_upload gallery)) = photos gallery @ [row] \<and>
      caption row = None \<and> location row = Some ''Lahore'')"
proof -
  have run: "fst (fst (post_photos healthy dusk_upload gallery)) = 201"
    by (simp add: post_photos_defs or_null_def js_split_def query_fails_defs gallery_defs)
  then have eq: "post_photos healthy dusk_upload gallery =
      ((201, snd (fst (post_photos healthy dusk_upload gallery))),
       snd (post_photos healthy dusk_upload gallery))"
    by (metis prod.collapse)
  have req: "req_caption dusk_upload = Some [] \<and> req_location dusk_upload = Some ''Lahore''"
    by (simp add: dusk_upload_def)
  from post_photos_optional_fields[OF eq] req run show ?thesis
    by auto
qed

section \<open>Delete-photo\<close>

text \<open>
  C2 as stated fails: an id that no row has is answered 500 \<open>Failed to delete photo\<close>,
  not 404, when the look-up is not answered. No photo of the gallery has the id 2147483648,
  which the driver refuses for \<open>sql.Int\<close>, and none has the id 12, asked for while the
  pool is rejected.
\<close>

theorem delete_photos_unknown_id_counterexample:
  "list_all (\<lambda>p. photo_id p \<noteq> 2147483648) (photos gallery) \<and>
   fst (delete_photos healthy 2147483648 gallery) = (500, ErrorJson ''Failed to delete photo'') \<and>
   list_all (\<lambda>p. photo_id p \<noteq> 12) (photos gallery) \<and>
   fst (delete_photos (healthy\<lparr>pool_rejects := Some ''ETIMEOUT''\<rparr>) 12 gallery) =
     (500, ErrorJson ''Failed to delete photo'')"
  by (simp add: delete_photos_defs query_fails_defs log_error_def gallery_defs)

text \<open>
  C2, amended. When no row of \<open>Photos\<close> has the id, the \<open>DELETE /photos/:id\<close> handler
  never calls the object store and never hands the \<open>DELETE\<close> statement to the driver,
  and the blobs, photos and comments are as before. When the look-up is answered (the pool
  resolves and the \<open>SELECT\<close> does not fail) the response is 404 \<open>Photo not found\<close>
  and the only calls are the pool and the \<open>SELECT\<close>; when it is not, the response is 500
  \<open>Failed to delete photo\<close>.
\<close>

theorem delete_photos_unknown_id:
  assumes "\<forall>p\<in>set (photos w). photo_id p \<noteq> i"
  shows "blobs (snd (delete_photos env i w)) = blobs w \<and>
     photos (snd (delete_photos env i w)) = photos w \<and>
     comments (snd (delete_photos env i w)) = comments w \<and>
     (\<forall>n. BlobDeleteIfExists n \<notin> set (new_calls w (snd (delete_photos env i w)))) \<and>
     (\<forall>j. Query (DeletePhoto j) \<notin> set (new_calls w (snd (delete_photos env i w)))) \<and>
     (pool_rejects env = None \<and> query_fails env (SelectImageUrl i) = None \<longrightarrow>
        fst (delete_photos env i w) = (404, ErrorJson ''Photo not found'') \<and>
        new_calls w (snd (delete_photos env i w)) = [AwaitPool, Query (SelectImageUrl i)]) \<and>
     (pool_rejects env \<noteq> None \<or> query_fails env (SelectImageUrl i) \<noteq> None \<longrightarrow>
        fst (delete_photos env i w) = (500, ErrorJson ''Failed to delete photo''))"
proof -
  note run = delete_photos_missing[OF where_id_none[OF assms], of env]
  show ?thesis
  proof (cases "pool_rejects env")
    case (Some m)
    with run show ?thesis
      by (simp add: new_calls_def log_error_def)
  next
    case None
    note pool = this
    show ?thesis
    proof (cases "query_fails env (SelectImageUrl i)")
      case None
      with run pool show ?thesis
        by (simp add: new_calls_def)
    next
      case (Some e)
      with run pool show ?thesis
        by (simp add: new_calls_def log_error_def)
    qed
  qed
qed

text \<open>
  No photo of the gallery has id 12: with the stores healthy, and with the store timing
  out on the \<open>SELECT\<close>.
\<close>

theorem delete_photos_unknown_id_witness:
  "list_all (\<lambda>p. photo_id p \<noteq> 12) (photos gallery) \<and>
   fst (delete_photos healthy 12 gallery) = (404, ErrorJson ''Photo not found'') \<and>
   new_calls gallery (snd (delete_photos healthy 12 gallery)) =
     [AwaitPool, Query (SelectImageUrl 12)] \<and>
   photos (snd (delete_photos healthy 12 gallery)) = [sunset, harbour, market] \<and>
   blobs (snd (delete_photos healthy 12 gallery)) = blobs gallery \<and>
   fst (delete_photos (healthy\<lparr>store_fails := (\<lambda>s. Some (RequestError (- 2) ''Timeout''))\<rparr>)
      12 gallery) = (500, ErrorJson ''Failed to delete photo'') \<and>
   photos (snd (delete_photos (healthy\<lparr>store_fails := (\<lambda>s. Some (RequestError (- 2) ''Timeout''))\<rparr>)
      12 gallery)) = [sunset, harbour, market]"
proof -
  have h: "\<forall>p\<in>set (photos gallery). photo_id p \<noteq> 12"
    by (simp add: gallery_defs)
  have e: "pool_rejects healthy = None \<and> query_fails healthy (SelectImageUrl 12) = None"
    by (simp add: healthy_def query_fails_defs)
  have f: "query_fails (healthy\<lparr>store_fails := (\<lambda>s. Some (RequestError (- 2) ''Timeout''))\<rparr>)
      (SelectImageUrl 12) \<noteq> None"
    by (simp add: query_fails_defs)
  from delete_photos_unknown_id[OF h, of healthy] e
  have a: "fst (delete_photos healthy 12 gallery) = (404, ErrorJson ''Photo not found'') \<and>
      new_calls gallery (snd (delete_photos healthy 12 gallery)) =
        [AwaitPool, Query (SelectImageUrl 12)] \<and>
      photos (snd (delete_photos healthy 12 gallery)) = photos gallery \<and>
      blobs (snd (delete_photos healthy 12 gallery)) = blobs gallery"
    by blast
  from delete_photos_unknown_id[OF h,
      of "healthy\<lparr>store_fails := (\<lambda>s. Some (RequestError (- 2) ''Timeout''))\<rparr>"] f
  have b: "fst (delete_photos (healthy\<lparr>store_fails := (\<lambda>s. Some (RequestError (- 2) ''Timeout''))\<rparr>)
      12 gallery) = (500, ErrorJson ''Failed to delete photo'') \<and>
   photos (snd (delete_photos (healthy\<lparr>store_fails := (\<lambda>s. Some (RequestError (- 2) ''Timeout''))\<rparr>)
      12 gallery)) = photos gallery"
    by blast
  from a b h show ?thesis
    by (simp add: gallery_def list_all_iff)
qed

text \<open>
  C3. When a row of \<open>Photos\<close> has the id and the look-up is answered, the handler always
  sends the \<open>DELETE\<close> statement; when that statement does not fail the response is 200
  \<open>Photo deleted successfully\<close> and neither the photo nor a comment on it is left. The
  response and the tables are the same whether \<open>containerClient\<close> exists or not and
  whatever \<open>deleteIfExists\<close> throws. The object store is called only when the first row
  found has a non-empty \<open>image_url\<close>, with the blob name worked out from it.
\<close>

theorem delete_photos_blob_best_effort:
  assumes "\<exists>p\<in>set (photos w). photo_id p = i"
    and "pool_rejects env = None" and "query_fails env (SelectImageUrl i) = None"
  shows "Query (DeletePhoto i) \<in> set (new_calls w (snd (delete_photos env i w))) \<and>
    (query_fails env (DeletePhoto i) = None \<longrightarrow>
       fst (delete_photos env i w) = (200, MessageJson ''Photo deleted successfully'') \<and>
       (\<forall>p\<in>set (photos (snd (delete_photos env i w))). photo_id p \<noteq> i) \<and>
       (\<forall>c\<in>set (comments (snd (delete_photos env i w))). comment_photo_id c \<noteq> i)) \<and>
    (\<forall>b f. fst (delete_photos (env\<lparr>containerClient := b, deleteIfExists_fails := f\<rparr>) i w)
             = fst (delete_photos env i w) \<and>
           photos (snd (delete_photos (env\<lparr>containerClient := b, deleteIfExists_fails := f\<rparr>) i w))
             = photos (snd (delete_photos env i w)) \<and>
           comments (snd (delete_photos (env\<lparr>containerClient := b, deleteIfExists_fails := f\<rparr>) i w))
             = comments (snd (delete_photos env i w))) \<and>
    (\<forall>n. BlobDeleteIfExists n \<in> set (new_calls w (snd (delete_photos env i w))) \<longrightarrow>
       (\<exists>p u. find (\<lambda>p. photo_id p = i) (photos w) = Some p \<and> image_url p = Some u \<and>
              u \<noteq> [] \<and> n = blobName_of (CONTAINER_NAME env) u))"
proof -
  from where_id_some[OF assms(1)] obtain p rest
    where rows: "filter (\<lambda>p. photo_id p = i) (photos w) = p # rest"
      and first: "find (\<lambda>p. photo_id p = i) (photos w) = Some p"
    by blast
  define w1 where "w1 = w\<lparr>calls := calls w @ [AwaitPool, Query (SelectImageUrl i)]\<rparr>"
  have blob_step: "\<exists>w2. delete_blob_if_present e (image_url p) w1 = (Inr (), w2) \<and>
      photos w2 = photos w \<and> comments w2 = comments w \<and>
      calls w2 = calls w @ [AwaitPool, Query (SelectImageUrl i)] @
          (case image_url p of
             None \<Rightarrow> []
           | Some u \<Rightarrow> if u \<noteq> [] \<and> containerClient e
                       then [BlobDeleteIfExists (blobName_of (CONTAINER_NAME e) u)] else [])"
    for e
    using delete_blob_if_present_result[of e "image_url p" w1] by (auto simp: w1_def)
  have run: "\<exists>w2. photos w2 = photos w \<and> comments w2 = comments w \<and>
      calls w2 = calls w @ [AwaitPool, Query (SelectImageUrl i)] @
          (case image_url p of
             None \<Rightarrow> []
           | Some u \<Rightarrow> if u \<noteq> [] \<and> containerClient e
                       then [BlobDeleteIfExists (blobName_of (CONTAINER_NAME e) u)] else []) \<and>
      delete_photos e i w =
       (case query_fails e (DeletePhoto i) of
          Some err \<Rightarrow> ((500, ErrorJson ''Failed to delete photo''),
                   log_error ''Error deleting photo:'' err
                     (w2\<lparr>calls := calls w2 @ [Query (DeletePhoto i)]\<rparr>))
        | None \<Rightarrow> ((200, MessageJson ''Photo deleted successfully''),
                  w2\<lparr>calls := calls w2 @ [Query (DeletePhoto i)],
                     photos := filter (\<lambda>p. photo_id p \<noteq> i) (photos w2),
                     comments := filter (\<lambda>c. comment_photo_id c \<noteq> i) (comments w2)\<rparr>))"
    if "pool_rejects e = None" and "query_fails e (SelectImageUrl i) = None" for e
  proof -
    from blob_step[of e] obtain w2
      where s: "delete_blob_if_present e (image_url p) w1 = (Inr (), w2)"
        and rest: "photos w2 = photos w" "comments w2 = comments w"
          "calls w2 = calls w @ [AwaitPool, Query (SelectImageUrl i)] @
            (case image_url p of
               None \<Rightarrow> []
             | Some u \<Rightarrow> if u \<noteq> [] \<and> containerClient e
                         then [BlobDeleteIfExists (blobName_of (CONTAINER_NAME e) u)] else [])"
      by blast
    from delete_photos_existing[OF rows that s[unfolded w1_def]] rest show ?thesis
      by blast
  qed
  from run[OF assms(2,3)] obtain w2
    where w2: "photos w2 = photos w" "comments w2 = comments w"
      and c2: "calls w2 = calls w @ [AwaitPool, Query (SelectImageUrl i)] @
          (case image_url p of
             None \<Rightarrow> []
           | Some u \<Rightarrow> if u \<noteq> [] \<and> containerClient env
                       then [BlobDeleteIfExists (blobName_of (CONTAINER_NAME env) u)] else [])"
      and r: "delete_photos env i w =
       (case query_fails env (DeletePhoto i) of
          Some err \<Rightarrow> ((500, ErrorJson ''Failed to delete photo''),
                   log_error ''Error deleting photo:'' err
                     (w2\<lparr>calls := calls w2 @ [Query (DeletePhoto i)]\<rparr>))
        | None \<Rightarrow> ((200, MessageJson ''Photo deleted successfully''),
                  w2\<lparr>calls := calls w2 @ [Query (DeletePhoto i)],
                     photos := filter (\<lambda>p. photo_id p \<noteq> i) (photos w2),
                     comments := filter (\<lambda>c. comment_photo_id c \<noteq> i) (comments w2)\<rparr>))"
    by blast
  have proceeds: "Query (DeletePhoto i) \<in> set (new_calls w (snd (delete_photos env i w)))"
    by (simp add: r c2 new_calls_def log_error_def split: option.splits)
  have gone: "fst (delete_photos env i w) = (200, MessageJson ''Photo deleted successfully'') \<and>
       (\<forall>p\<in>set (photos (snd (delete_photos env i w))). photo_id p \<noteq> i) \<and>
       (\<forall>c\<in>set (comments (snd (delete_photos env i w))). comment_photo_id c \<noteq> i)"
    if "query_fails env (DeletePhoto i) = None"
    using that by (simp add: r)
  have same: "fst (delete_photos (env\<lparr>containerClient := b, deleteIfExists_fails := f\<rparr>) i w)
             = fst (delete_photos env i w) \<and>
           photos (snd (delete_photos (env\<lparr>containerClient := b, deleteIfExists_fails := f\<rparr>) i w))
             = photos (snd (delete_photos env i w)) \<and>
           comments (snd (delete_photos (env\<lparr>containerClient := b, deleteIfExists_fails := f\<rparr>) i w))
             = comments (snd (delete_photos env i w))" for b f
  proof -
    from run[of "env\<lparr>containerClient := b, deleteIfExists_fails := f\<rparr>"] assms(2,3)
      query_fails_blob_settings[where env = env and b = b and f = f] obtain w3
      where w3: "photos w3 = photos w" "comments w3 = comments w"
        and r3: "delete_photos (env\<lparr>containerClient := b, deleteIfExists_fails := f\<rparr>) i w =
         (case query_fails env (DeletePhoto i) of
            Some err \<Rightarrow> ((500, ErrorJson ''Failed to delete photo''),
                   log_error ''Error deleting photo:'' err
                     (w3\<lparr>calls := calls w3 @ [Query (DeletePhoto i)]\<rparr>))
          | None \<Rightarrow> ((200, MessageJson ''Photo deleted successfully''),
                  w3\<lparr>calls := calls w3 @ [Query (DeletePhoto i)],
                     photos := filter (\<lambda>p. photo_id p \<noteq> i) (photos w3),
                     comments := filter (\<lambda>c. comment_photo_id c \<noteq> i) (comments w3)\<rparr>))"
      by auto
    show ?thesis
      by (simp add: r r3 w2 w3 log_error_def split: option.splits)
  qed
  have only: "\<exists>p u. find (\<lambda>p. photo_id p = i) (photos w) = Some p \<and> image_url p = Some u \<and>
              u \<noteq> [] \<and> n = blobName_of (CONTAINER_NAME env) u"
    if "BlobDeleteIfExists n \<in> set (new_calls w (snd (delete_photos env i w)))" for n
  proof (cases "image_url p")
    case None
    with that show ?thesis
      by (simp add: r c2 new_calls_def log_error_def split: option.splits)
  next
    case (Some u)
    with that first show ?thesis
      by (auto simp add: r c2 new_calls_def log_error_def split: option.splits if_splits)
  qed
  from proceeds gone same only show ?thesis
    by blast
qed

text \<open>
  Deleting photo 7 of the gallery, with the object store healthy and with
  \<open>deleteIfExists\<close> throwing.
\<close>

theorem delete_photos_blob_best_effort_witness:
  "list_ex (\<lambda>p. photo_id p = 7) (photos gallery) \<and>
   new_calls gallery (snd (delete_photos healthy 7 gallery)) =
     [AwaitPool, Query (SelectImageUrl 7), BlobDeleteIfExists ''1700000000001-aq3.jpg'',
      Query (DeletePhoto 7)] \<and>
   fst (delete_photos healthy 7 gallery) = (200, MessageJson ''Photo deleted successfully'') \<and>
   fst (delete_photos (healthy\<lparr>containerClient := True,
          deleteIfExists_fails := Some (RestError ''ServerBusy'')\<rparr>) 7 gallery) =
     (200, MessageJson ''Photo deleted successfully'') \<and>
   photos (snd (delete_photos (healthy\<lparr>containerClient := True,
          deleteIfExists_fails := Some (RestError ''ServerBusy'')\<rparr>) 7 gallery)) =
     [harbour, market] \<and>
   comments (snd (delete_photos (healthy\<lparr>containerClient := True,
          deleteIfExists_fails := Some (RestError ''ServerBusy'')\<rparr>) 7 gallery)) = []"
proof -
  have h: "\<exists>p\<in>set (photos gallery). photo_id p = 7"
    by (simp add: gallery_defs)
  have e: "pool_rejects healthy = None" "query_fails healthy (SelectImageUrl 7) = None"
    "query_fails healthy (DeletePhoto 7) = None"
    by (simp_all add: healthy_def query_fails_defs)
  have run: "new_calls gallery (snd (delete_photos healthy 7 gallery)) =
     [AwaitPool, Query (SelectImageUrl 7), BlobDeleteIfExists ''1700000000001-aq3.jpg'',
      Query (DeletePhoto 7)]"
    and tables: "photos (snd (delete_photos healthy 7 gallery)) = [harbour, market]"
      "comments (snd (delete_photos healthy 7 gallery)) = []"
    by (simp_all add: delete_photos_defs delete_blob_if_present_def deleteImageFromBlob_defs
        blobName_of_def js_split_def new_calls_def query_fails_defs gallery_defs)
  from delete_photos_blob_best_effort[OF h e(1,2)] e(3) run tables h show ?thesis
    by (simp add: list_ex_iff)
qed

section \<open>Add-comment\<close>

text \<open>
  C4. For a text that is not blank, the \<open>POST /photos/:id/comments\<close> handler answers 404
  \<open>Photo not found\<close> exactly when the pool resolved and the \<open>INSERT\<close> threw an
  error whose \<open>number\<close> is 547, the store's foreign-key violation. Any other error of the
  \<open>INSERT\<close>, and a rejected pool, gives 500 \<open>Failed to add comment\<close>. When no photo
  has the id, no comment is added, and the answer is 404 unless the pool or the statement
  failed for another reason.
\<close>

theorem post_comments_error_mapping:
  assumes "\<exists>c\<in>set t. \<not> js_whitespace c"
  shows
   "(\<forall>m. pool_rejects env = Some m \<longrightarrow>
        fst (post_comments env i (Some t) w) = (500, ErrorJson ''Failed to add comment'')) \<and>
    (\<forall>e w1. pool_rejects env = None \<and>
          insert_comment env i t (snd (poolPromise env w)) = (Inl e, w1) \<longrightarrow>
        fst (post_comments env i (Some t) w) =
          (if err_number e = Some 547 then (404, ErrorJson ''Photo not found'')
           else (500, ErrorJson ''Failed to add comment''))) \<and>
    (fst (fst (post_comments env i (Some t) w)) = 404 \<longleftrightarrow>
       pool_rejects env = None \<and>
       (\<exists>e w1. insert_comment env i t (snd (poolPromise env w)) = (Inl e, w1) \<and>
                err_number e = Some 547)) \<and>
    ((\<forall>p\<in>set (photos w). photo_id p \<noteq> i) \<longrightarrow>
        comments (snd (post_comments env i (Some t) w)) = comments w \<and>
        (pool_rejects env = None \<and> query_fails env (InsertComment i t) = None \<longrightarrow>
           fst (post_comments env i (Some t) w) = (404, ErrorJson ''Photo not found'')))"
proof -
  from assms have t: "t \<noteq> []" "js_trim t \<noteq> []"
    by (auto simp: js_trim_empty_iff)
  show ?thesis
    using t
    by (auto simp: post_comments_defs split: option.splits if_splits)
qed

text \<open>
  A comment on the unknown photo 12, and a comment on photo 7 while the store reports a
  deadlock (error number 1205).
\<close>

theorem post_comments_error_mapping_witness:
  "list_ex (\<lambda>c. \<not> js_whitespace c) nice \<and>
   list_all (\<lambda>p. photo_id p \<noteq> 12) (photos gallery) \<and>
   fst (post_comments healthy 12 (Some nice) gallery) = (404, ErrorJson ''Photo not found'') \<and>
   comments (snd (post_comments healthy 12 (Some nice) gallery)) = comments gallery \<and>
   fst (post_comments (healthy\<lparr>store_fails := (\<lambda>s. Some (RequestError 1205 ''deadlock''))\<rparr>)
          7 (Some nice) gallery) = (500, ErrorJson ''Failed to add comment'') \<and>
   fst (post_comments (healthy\<lparr>pool_rejects := Some ''ETIMEOUT''\<rparr>) 7 (Some nice) gallery) =
     (500, ErrorJson ''Failed to add comment'')"
proof -
  have t: "\<exists>c\<in>set nice. \<not> js_whitespace c"
    by (simp add: js_whitespace_def nice_def)
  have h: "\<forall>p\<in>set (photos gallery). photo_id p \<noteq> 12"
    by (simp add: gallery_defs)
  have e: "pool_rejects healthy = None \<and> query_fails healthy (InsertComment 12 nice) = None"
    by (simp add: healthy_def query_fails_defs)
  have d: "pool_rejects (healthy\<lparr>store_fails := (\<lambda>s. Some (RequestError 1205 ''deadlock''))\<rparr>) = None \<and>
    insert_comment (healthy\<lparr>store_fails := (\<lambda>s. Some (RequestError 1205 ''deadlock''))\<rparr>) 7 nice
       (snd (poolPromise (healthy\<lparr>store_fails := (\<lambda>s. Some (RequestError 1205 ''deadlock''))\<rparr>) gallery))
     = (Inl (RequestError 1205 ''deadlock''),
        gallery\<lparr>calls := [AwaitPool, Query (InsertComment 7 nice)]\<rparr>)"
    by (simp add: insert_comment_def run_query_def poolPromise_def query_fails_defs gallery_defs)
  have p: "pool_rejects (healthy\<lparr>pool_rejects := Some ''ETIMEOUT''\<rparr>) = Some ''ETIMEOUT''"
    by simp
  have a: "fst (post_comments healthy 12 (Some nice) gallery) = (404, ErrorJson ''Photo not found'') \<and>
      comments (snd (post_comments healthy 12 (Some nice) gallery)) = comments gallery"
    using post_comments_error_mapping[OF t, of healthy 12 gallery] h e by blast
  have "\<forall>e w1. pool_rejects (healthy\<lparr>store_fails := (\<lambda>s. Some (RequestError 1205 ''deadlock''))\<rparr>) = None \<and>
      insert_comment (healthy\<lparr>store_fails := (\<lambda>s. Some (RequestError 1205 ''deadlock''))\<rparr>) 7 nice
        (snd (poolPromise (healthy\<lparr>store_fails := (\<lambda>s. Some (RequestError 1205 ''deadlock''))\<rparr>) gallery))
      = (Inl e, w1) \<longrightarrow>
    fst (post_comments (healthy\<lparr>store_fails := (\<lambda>s. Some (RequestError 1205 ''deadlock''))\<rparr>)
          7 (Some nice) gallery) =
      (if err_number e = Some 547 then (404, ErrorJson ''Photo not found'')
       else (500, ErrorJson ''Failed to add comment''))"
    using post_comments_error_mapping[OF t,
        of "healthy\<lparr>store_fails := (\<lambda>s. Some (RequestError 1205 ''deadlock''))\<rparr>" 7 gallery]
    by blast
  from this[rule_format, OF d]
  have b: "fst (post_comments (healthy\<lparr>store_fails := (\<lambda>s. Some (RequestError 1205 ''deadlock''))\<rparr>)
          7 (Some nice) gallery) = (500, ErrorJson ''Failed to add comment'')"
    by simp
  have c: "fst (post_comments (healthy\<lparr>pool_rejects := Some ''ETIMEOUT''\<rparr>) 7 (Some nice) gallery) =
     (500, ErrorJson ''Failed to add comment'')"
    using post_comments_error_mapping[OF t, of "healthy\<lparr>pool_rejects := Some ''ETIMEOUT''\<rparr>" 7 gallery] p
    by blast
  from a b c t h show ?thesis
    by (simp add: list_ex_iff list_all_iff)
qed





section \<open>The object store's delete\<close>

text \<open>
  C6. The key \<open>deleteImageFromBlob\<close> deletes is \<open>parts[1]\<close> of the input split at
  \<open>/container/\<close>. For a URL whose blob name holds the segment again, that is the text
  between the first two occurrences, not the remainder of the input after the segment:
  for the blob \<open>x/photos/y.jpg\<close> of the container \<open>photos\<close> the call goes to the
  blob \<open>x\<close>.
\<close>

theorem deleteImageFromBlob_key_stops_at_second_segment:
  "blobName_of ''photos'' ''https://media.blob.core.windows.net/photos/x/photos/y.jpg'' = ''x'' \<and>
   spec_key ''photos'' ''https://media.blob.core.windows.net/photos/x/photos/y.jpg''
     = ''x/photos/y.jpg'' \<and>
   new_calls gallery (snd (deleteImageFromBlob healthy
       ''https://media.blob.core.windows.net/photos/x/photos/y.jpg'' gallery))
     = [BlobDeleteIfExists ''x'']"
  by (simp add: blobName_of_def spec_key_def js_split_def deleteImageFromBlob_defs new_calls_def
      gallery_defs)

lemma js_includes_mid: "js_includes (pre @ sub @ post) sub"
proof (induction pre)
  case Nil
  have "take (length sub) (sub @ post) = sub"
    by simp
  then show ?case
    by (cases "sub @ post") auto
next
  case (Cons c pre)
  then show ?case by simp
qed

lemma remainder_after_Some:
  "remainder_after seg s = Some r \<Longrightarrow> \<exists>pre. s = pre @ seg @ r"
proof (induction s)
  case Nil
  then show ?case by (simp split: if_splits)
next
  case (Cons c cs)
  show ?case
  proof (cases "take (length seg) (c # cs) = seg")
    case True
    with Cons.prems have "r = drop (length seg) (c # cs)"
      by simp
    with True have "c # cs = [] @ seg @ r"
      by (metis append_Nil append_take_drop_id)
    then show ?thesis by blast
  next
    case False
    with Cons.prems have "remainder_after seg cs = Some r"
      by simp
    with Cons.IH obtain pre where "cs = pre @ seg @ r"
      by blast
    then have "c # cs = (c # pre) @ seg @ r"
      by simp
    then show ?thesis by blast
  qed
qed

lemma split_from_no_segment:
  "seg \<noteq> [] \<Longrightarrow> remainder_after seg s = None \<Longrightarrow> split_from seg cur s = [cur @ s]"
  by (induction s arbitrary: cur) (auto split: if_splits)

lemma split_from_segment:
  "seg \<noteq> [] \<Longrightarrow> remainder_after seg s = Some r \<Longrightarrow>
   \<exists>piece. split_from seg cur s = piece # split_from seg [] r"
proof (induction s arbitrary: cur)
  case Nil
  then show ?case by simp
next
  case (Cons c cs)
  show ?case
  proof (cases "take (length seg) (c # cs) = seg")
    case True
    with Cons.prems have "r = drop (length seg - 1) cs"
      by (simp add: drop_Cons')
    with True show ?thesis by simp
  next
    case False
    with Cons.prems have "remainder_after seg cs = Some r"
      by simp
    from Cons.IH[OF Cons.prems(1) this, of "cur @ [c]"] False show ?thesis
      by simp
  qed
qed

text \<open>
  When the segment \<open>/container/\<close> occurs in the input at most once, that is not at all or
  with no further occurrence in what follows it, the blob name \<open>deleteImageFromBlob\<close>
  works out is the key the specification describes.
\<close>

theorem blobName_of_single_segment:
  assumes "case remainder_after (''/'' @ container @ ''/'') input of
             None \<Rightarrow> True
           | Some r \<Rightarrow> remainder_after (''/'' @ container @ ''/'') r = None"
  shows "blobName_of container input = spec_key container input"
proof (cases "remainder_after (''/'' @ container @ ''/'') input")
  case None
  then have "split_from (''/'' @ container @ ''/'') [] input = [input]"
    using split_from_no_segment[of "''/'' @ container @ ''/''" input "[]"] by simp
  with None show ?thesis
    by (simp add: blobName_of_def spec_key_def js_split_def)
next
  case (Some r)
  with assms have once: "remainder_after (''/'' @ container @ ''/'') r = None"
    by simp
  from remainder_after_Some[OF Some] obtain pre
    where "input = (pre @ ''/'') @ container @ (''/'' @ r)"
    by auto
  then have inc: "js_includes input container"
    using js_includes_mid[of "pre @ ''/''" container "''/'' @ r"] by simp
  from split_from_segment[of "''/'' @ container @ ''/''" input r "[]"] Some obtain piece
    where "split_from (''/'' @ container @ ''/'') [] input =
        piece # split_from (''/'' @ container @ ''/'') [] r"
    by auto
  moreover have "split_from (''/'' @ container @ ''/'') [] r = [r]"
    using split_from_no_segment[of "''/'' @ container @ ''/''" r "[]"] once by simp
  ultimately have "js_split input (''/'' @ container @ ''/'') = [piece, r]"
    by (simp add: js_split_def)
  with inc Some show ?thesis
    by (simp add: blobName_of_def spec_key_def)
qed

text \<open>The URL of the blob of \<open>sunset\<close> holds the segment once.\<close>

theorem blobName_of_single_segment_witness:
  "remainder_after ''/photos/'' ''https://media.blob.core.windows.net/photos/1700000000001-aq3.jpg''
     = Some ''1700000000001-aq3.jpg'' \<and>
   remainder_after ''/photos/'' ''1700000000001-aq3.jpg'' = None \<and>
   blobName_of ''photos'' ''https://media.blob.core.windows.net/photos/1700000000001-aq3.jpg''
     = ''1700000000001-aq3.jpg'' \<and>
   spec_key ''photos'' ''https://media.blob.core.windows.net/photos/1700000000001-aq3.jpg''
     = ''1700000000001-aq3.jpg''"
proof -
  have a: "remainder_after (''/'' @ ''photos'' @ ''/'')
      ''https://media.blob.core.windows.net/photos/1700000000001-aq3.jpg''
     = Some ''1700000000001-aq3.jpg''"
    by simp
  have b: "remainder_after (''/'' @ ''photos'' @ ''/'') ''1700000000001-aq3.jpg'' = None"
    by simp
  have k: "spec_key ''photos'' ''https://media.blob.core.windows.net/photos/1700000000001-aq3.jpg''
     = ''1700000000001-aq3.jpg''"
    by (simp add: spec_key_def)
  have "case remainder_after (''/'' @ ''photos'' @ ''/'')
        ''https://media.blob.core.windows.net/photos/1700000000001-aq3.jpg'' of
          None \<Rightarrow> True
        | Some r \<Rightarrow> remainder_after (''/'' @ ''photos'' @ ''/'') r = None"
    by (simp only: a option.case b)
  from blobName_of_single_segment[OF this] a b k show ?thesis
    by simp
qed

text \<open>
  C7. \<open>deleteImageFromBlob\<close> returns normally on every input, in every world and whatever
  the object store does. Deleting again leaves the blobs as the first call left them, and
  deleting a blob that is not there changes no blob. When \<open>deleteIfExists\<close> throws, or
  \<open>containerClient\<close> was never created, the only trace is a line on the console (and the
  recorded call, when one was made).
\<close>

theorem deleteImageFromBlob_never_throws:
  "fst (deleteImageFromBlob env u w) = Inr () \<and>
   fst (deleteImageFromBlob env u (snd (deleteImageFromBlob env u w))) = Inr () \<and>
   blobs (snd (deleteImageFromBlob env u (snd (deleteImageFromBlob env u w)))) =
     blobs (snd (deleteImageFromBlob env u w)) \<and>
   ((\<forall>kv\<in>set (blobs w). fst kv \<noteq> blobName_of (CONTAINER_NAME env) u) \<longrightarrow>
      blobs (snd (deleteImageFromBlob env u w)) = blobs w) \<and>
   (\<forall>e. containerClient env \<and> deleteIfExists_fails env = Some e \<longrightarrow>
      snd (deleteImageFromBlob env u w) =
        w\<lparr>calls := calls w @ [BlobDeleteIfExists (blobName_of (CONTAINER_NAME env) u)],
          console := console w @ [ConsoleError (''Error deleting blob: '' @ err_message e)]\<rparr>) \<and>
   (\<not> containerClient env \<longrightarrow>
      snd (deleteImageFromBlob env u w) =
        w\<lparr>console := console w @
            [ConsoleError ''Blob storage client not initialized, cannot delete blob.'']\<rparr>)"
proof (intro conjI allI impI)
  have returns: "fst (deleteImageFromBlob env u w') = Inr ()" for w'
    by (simp add: deleteImageFromBlob_defs split: option.splits)
  show "fst (deleteImageFromBlob env u w) = Inr ()"
    by (rule returns)
  show "fst (deleteImageFromBlob env u (snd (deleteImageFromBlob env u w))) = Inr ()"
    by (rule returns)
  show "blobs (snd (deleteImageFromBlob env u (snd (deleteImageFromBlob env u w)))) =
     blobs (snd (deleteImageFromBlob env u w))"
    by (simp add: deleteImageFromBlob_defs split: option.splits)
  show "blobs (snd (deleteImageFromBlob env u w)) = blobs w"
    if "\<forall>kv\<in>set (blobs w). fst kv \<noteq> blobName_of (CONTAINER_NAME env) u"
  proof -
    from that
    have "filter (\<lambda>kv. fst kv \<noteq> blobName_of (CONTAINER_NAME env) u) (blobs w) = blobs w"
      by (simp add: filter_id_conv)
    then show ?thesis
      by (simp add: deleteImageFromBlob_defs split: option.splits)
  qed
  show "snd (deleteImageFromBlob env u w) =
        w\<lparr>calls := calls w @ [BlobDeleteIfExists (blobName_of (CONTAINER_NAME env) u)],
          console := console w @ [ConsoleError (''Error deleting blob: '' @ err_message e)]\<rparr>"
    if "containerClient env \<and> deleteIfExists_fails env = Some e" for e
    using that by (simp add: deleteImageFromBlob_defs)
  show "snd (deleteImageFromBlob env u w) =
        w\<lparr>console := console w @
            [ConsoleError ''Blob storage client not initialized, cannot delete blob.'']\<rparr>"
    if "\<not> containerClient env"
    using that by (simp add: deleteImageFromBlob_defs)
qed

text \<open>
  Deleting the blob of \<open>sunset\<close> twice, deleting a blob the store does not hold, and
  deleting while the store is busy or was never connected.
\<close>

theorem deleteImageFromBlob_never_throws_witness:
  "map fst (blobs (snd (deleteImageFromBlob healthy
       ''https://media.blob.core.windows.net/photos/1700000000001-aq3.jpg'' gallery)))
     = [''1700000000003-zk1.png''] \<and>
   fst (deleteImageFromBlob healthy
       ''https://media.blob.core.windows.net/photos/1700000000001-aq3.jpg''
       (snd (deleteImageFromBlob healthy
          ''https://media.blob.core.windows.net/photos/1700000000001-aq3.jpg'' gallery))) = Inr () \<and>
   list_all (\<lambda>kv. fst kv \<noteq> blobName_of (CONTAINER_NAME healthy) ''gone.jpg'') (blobs gallery) \<and>
   blobs (snd (deleteImageFromBlob healthy ''gone.jpg'' gallery)) = blobs gallery \<and>
   snd (deleteImageFromBlob (healthy\<lparr>deleteIfExists_fails := Some (RestError ''ServerBusy'')\<rparr>)
        ''gone.jpg'' gallery) =
     gallery\<lparr>calls := [BlobDeleteIfExists ''gone.jpg''],
        console := [ConsoleError ''Error deleting blob: ServerBusy'']\<rparr> \<and>
   snd (deleteImageFromBlob (healthy\<lparr>containerClient := False\<rparr>) ''gone.jpg'' gallery) =
     gallery\<lparr>console :=
        [ConsoleError ''Blob storage client not initialized, cannot delete blob.'']\<rparr>"
proof -
  have first: "map fst (blobs (snd (deleteImageFromBlob healthy
       ''https://media.blob.core.windows.net/photos/1700000000001-aq3.jpg'' gallery)))
     = [''1700000000003-zk1.png'']"
    by (simp add: deleteImageFromBlob_defs blobName_of_def js_split_def gallery_defs)
  have name: "blobName_of (CONTAINER_NAME healthy) ''gone.jpg'' = ''gone.jpg''"
    by (simp add: blobName_of_def healthy_def)
  have absent: "\<forall>kv\<in>set (blobs gallery). fst kv \<noteq> blobName_of (CONTAINER_NAME healthy) ''gone.jpg''"
    by (simp add: name) (simp add: gallery_def)
  have busy: "containerClient (healthy\<lparr>deleteIfExists_fails := Some (RestError ''ServerBusy'')\<rparr>) \<and>
      deleteIfExists_fails (healthy\<lparr>deleteIfExists_fails := Some (RestError ''ServerBusy'')\<rparr>)
        = Some (RestError ''ServerBusy'')"
    by (simp add: healthy_def)
  have off: "\<not> containerClient (healthy\<lparr>containerClient := False\<rparr>)"
    by simp
  have g: "calls gallery = [] \<and> console gallery = []"
    by (simp add: gallery_def)
  from deleteImageFromBlob_never_throws[of healthy
        "''https://media.blob.core.windows.net/photos/1700000000001-aq3.jpg''" gallery]
  have twice: "fst (deleteImageFromBlob healthy
       ''https://media.blob.core.windows.net/photos/1700000000001-aq3.jpg''
       (snd (deleteImageFromBlob healthy
          ''https://media.blob.core.windows.net/photos/1700000000001-aq3.jpg'' gallery))) = Inr ()"
    by blast
  from deleteImageFromBlob_never_throws[of healthy "''gone.jpg''" gallery] absent
  have none: "blobs (snd (deleteImageFromBlob healthy ''gone.jpg'' gallery)) = blobs gallery"
    by blast
  from deleteImageFromBlob_never_throws[of
      "healthy\<lparr>deleteIfExists_fails := Some (RestError ''ServerBusy'')\<rparr>" "''gone.jpg''" gallery] busy
  have "snd (deleteImageFromBlob (healthy\<lparr>deleteIfExists_fails := Some (RestError ''ServerBusy'')\<rparr>)
        ''gone.jpg'' gallery) =
     gallery\<lparr>calls := calls gallery @ [BlobDeleteIfExists (blobName_of
          (CONTAINER_NAME (healthy\<lparr>deleteIfExists_fails := Some (RestError ''ServerBusy'')\<rparr>))
          ''gone.jpg'')],
        console := console gallery @
          [ConsoleError (''Error deleting blob: '' @ err_message (RestError ''ServerBusy''))]\<rparr>"
    by blast
  then have b: "snd (deleteImageFromBlob (healthy\<lparr>deleteIfExists_fails := Some (RestError ''ServerBusy'')\<rparr>)
        ''gone.jpg'' gallery) =
     gallery\<lparr>calls := [BlobDeleteIfExists ''gone.jpg''],
        console := [ConsoleError ''Error deleting blob: ServerBusy'']\<rparr>"
    by (simp add: name g)
  from deleteImageFromBlob_never_throws[of "healthy\<lparr>containerClient := False\<rparr>" "''gone.jpg''" gallery] off
  have "snd (deleteImageFromBlob (healthy\<lparr>containerClient := False\<rparr>) ''gone.jpg'' gallery) =
     gallery\<lparr>console := console gallery @
        [ConsoleError ''Blob storage client not initialized, cannot delete blob.'']\<rparr>"
    by blast
  then have o: "snd (deleteImageFromBlob (healthy\<lparr>containerClient := False\<rparr>) ''gone.jpg'' gallery) =
     gallery\<lparr>console :=
        [ConsoleError ''Blob storage client not initialized, cannot delete blob.'']\<rparr>"
    by (simp add: g)
  from first twice absent none b o show ?thesis
    by (simp add: list_all_iff)
qed

section \<open>Listing the photos\<close>

text \<open>
  C9. When the pool resolves and the \<open>SELECT\<close> does not fail, \<open>GET /photos\<close> answers 200
  with all the rows of \<open>Photos\<close>, each as often as the table holds it, in non-increasing
  order of \<open>created_at\<close>; when the timestamps are distinct the order is strictly
  decreasing.
\<close>

theorem get_photos_newest_first:
  assumes "pool_rejects env = None" and "query_fails env SelectPhotos = None"
  shows "\<exists>rows. fst (get_photos env w) = (200, PhotosJson rows) \<and>
     mset rows = mset (photos w) \<and>
     sorted_wrt (\<lambda>a b. created_at a \<ge> created_at b) rows \<and>
     (distinct (map created_at (photos w)) \<longrightarrow>
        sorted_wrt (\<lambda>a b. created_at a > created_at b) rows)"
proof (intro exI conjI impI)
  show "fst (get_photos env w) = (200, PhotosJson (rev (sort_key created_at (photos w))))"
    by (simp add: get_photos_ok[OF assms])
  show "mset (rev (sort_key created_at (photos w))) = mset (photos w)"
    by simp
  show "sorted_wrt (\<lambda>a b. created_at b \<le> created_at a) (rev (sort_key created_at (photos w)))"
    by (rule order_by_desc_sorted)
  show "sorted_wrt (\<lambda>a b. created_at b < created_at a) (rev (sort_key created_at (photos w)))"
    if "distinct (map created_at (photos w))"
    using that by (rule order_by_desc_strict)
qed

text \<open>The gallery holds photos created at 10, 30 and 20.\<close>

theorem get_photos_newest_first_witness:
  "distinct (map created_at (photos gallery)) \<and>
   fst (get_photos healthy gallery) = (200, PhotosJson [harbour, market, sunset]) \<and>
   (\<exists>rows. fst (get_photos healthy gallery) = (200, PhotosJson rows) \<and>
      mset rows = mset (photos gallery) \<and>
      sorted_wrt (\<lambda>a b. created_at a > created_at b) rows)"
proof -
  have e: "pool_rejects healthy = None" "query_fails healthy SelectPhotos = None"
    by (simp_all add: healthy_def query_fails_defs)
  have d: "distinct (map created_at (photos gallery))"
    by (simp add: gallery_defs)
  have run: "fst (get_photos healthy gallery) = (200, PhotosJson [harbour, market, sunset])"
    by (simp add: get_photos_ok[OF e]) (simp add: gallery_defs)
  from get_photos_newest_first[OF e, of gallery] d run show ?thesis
    by blast
qed

end
